theory Spec2Isabelle
  imports Main "HOL-Library.Word" "HOL-Library.Code_Target_Numeral"
begin

section \<open>JavaScript values used by the form screen\<close>

text \<open>
  The screen (\<^verbatim>\<open>app/index.tsx\<close>, function \<^verbatim>\<open>App\<close>) keeps two strings and a list of
  items, and calls three built-ins on the strings: \<^verbatim>\<open>String.prototype.trim\<close>,
  \<^verbatim>\<open>parseInt(_, 10)\<close> and \<^verbatim>\<open>Number.isNaN\<close>. A JavaScript string is a sequence of
  16-bit code units, so it is a list of 16-bit words here. \<open>js_str\<close> writes an ASCII
  literal as such a list.
\<close>

type_synonym code_unit = "16 word"
type_synonym js_string = "code_unit list"

definition js_str :: "string \<Rightarrow> js_string" where
  "js_str s = map of_char s"

text \<open>
  The numbers \<^verbatim>\<open>parseInt\<close> can return: \<^verbatim>\<open>NaN\<close>, a double whose value is an integer,
  negative zero, and the two infinities (a digit string too long for a double).
\<close>

datatype js_number = NaN | Finite int | NegZero | PosInfinity | NegInfinity

fun Number_isNaN :: "js_number \<Rightarrow> bool" where
  "Number_isNaN NaN = True"
| "Number_isNaN (Finite i) = False"
| "Number_isNaN NegZero = False"
| "Number_isNaN PosInfinity = False"
| "Number_isNaN NegInfinity = False"

fun Number_isInteger :: "js_number \<Rightarrow> bool" where
  "Number_isInteger NaN = False"
| "Number_isInteger (Finite i) = True"
| "Number_isInteger NegZero = True"
| "Number_isInteger PosInfinity = False"
| "Number_isInteger NegInfinity = False"

subsection \<open>\<^verbatim>\<open>String.prototype.trim\<close>\<close>

text \<open>
  ECMAScript's white space for \<^verbatim>\<open>trim\<close> and for the start of \<^verbatim>\<open>parseInt\<close>'s input:
  TAB, VT, FF, SP, NBSP, ZWNBSP, the other space separators (U+1680, U+2000 to U+200A,
  U+202F, U+205F, U+3000) and the line terminators LF, CR, LS, PS. Each is one code unit.
\<close>

definition is_white_space :: "code_unit \<Rightarrow> bool" where
  "is_white_space c \<longleftrightarrow>
     c = 0x0009 \<or> c = 0x000A \<or> c = 0x000B \<or> c = 0x000C \<or> c = 0x000D \<or> c = 0x0020 \<or>
     c = 0x00A0 \<or> c = 0x1680 \<or> (0x2000 \<le> c \<and> c \<le> 0x200A) \<or> c = 0x2028 \<or>
     c = 0x2029 \<or> c = 0x202F \<or> c = 0x205F \<or> c = 0x3000 \<or> c = 0xFEFF"

definition trim_start :: "js_string \<Rightarrow> js_string" where
  "trim_start s = dropWhile is_white_space s"

definition trim :: "js_string \<Rightarrow> js_string" where
  "trim s = rev (dropWhile is_white_space (rev (trim_start s)))"

subsection \<open>\<^verbatim>\<open>parseInt(string, 10)\<close>\<close>

text \<open>
  The only call is \<^verbatim>\<open>parseInt(quantity, 10)\<close>, so the radix is fixed to ten: leading
  white space is dropped, one sign is read, the longest run of decimal digits is taken, and
  anything after it is ignored. No digit gives \<^verbatim>\<open>NaN\<close>. The digits' value is converted
  to a double: round to nearest, ties to even, on 53 significant bits, and a value that
  rounds to \<open>2 ^ 1024\<close> or more is an infinity.
\<close>

definition is_digit :: "code_unit \<Rightarrow> bool" where
  "is_digit c \<longleftrightarrow> 0x0030 \<le> c \<and> c \<le> 0x0039"

definition digit_value :: "code_unit \<Rightarrow> nat" where
  "digit_value c = unat c - 48"

definition math_int :: "js_string \<Rightarrow> nat" where
  "math_int z = foldl (\<lambda>acc c. 10 * acc + digit_value c) 0 z"

fun bit_length :: "nat \<Rightarrow> nat" where
  "bit_length n = (if n = 0 then 0 else Suc (bit_length (n div 2)))"

declare bit_length.simps [simp del]

definition round_ties_even :: "nat \<Rightarrow> nat" where
  "round_ties_even m =
     (if m < 2 ^ 53 then m
      else let e = bit_length m - 53;
               q = m div 2 ^ e;
               r = m mod 2 ^ e;
               h = 2 ^ (e - 1)
           in if h < r \<or> (r = h \<and> odd q) then (q + 1) * 2 ^ e else q * 2 ^ e)"

definition to_Number :: "bool \<Rightarrow> nat \<Rightarrow> js_number" where
  "to_Number negative m =
     (let v = round_ties_even m
      in if 2 ^ 1024 \<le> v then (if negative then NegInfinity else PosInfinity)
         else Finite (if negative then - int v else int v))"

definition strip_sign :: "js_string \<Rightarrow> js_string" where
  "strip_sign s = (case s of [] \<Rightarrow> [] | c # cs \<Rightarrow> if c = 0x002B \<or> c = 0x002D then cs else s)"

definition numeric_prefix :: "js_string \<Rightarrow> js_string" where
  "numeric_prefix string = takeWhile is_digit (strip_sign (trim_start string))"

definition parseInt :: "js_string \<Rightarrow> js_number" where
  "parseInt string =
     (let s = trim_start string;
          negative = (case s of [] \<Rightarrow> False | c # cs \<Rightarrow> c = 0x002D);
          z = numeric_prefix string
      in if z = [] then NaN
         else if math_int z = 0 then (if negative then NegZero else Finite 0)
         else to_Number negative (math_int z))"

section \<open>The storage adapter as the screen sees it\<close>

text \<open>
  \<^verbatim>\<open>import { fetchItems, insertItem, type Item } from './db'\<close>: the screen uses the
  type \<^verbatim>\<open>Item\<close> (the fields \<^verbatim>\<open>id\<close>, \<^verbatim>\<open>name\<close> and \<^verbatim>\<open>quantity\<close> are read when a row
  is rendered) and two asynchronous functions of the database handle. Each call either
  resolves or rejects with an error, and may change the database; so a call maps the
  database to its outcome and the database afterwards. The screen's functions below take
  the two functions as a parameter: what they do holds for every implementation.
\<close>

record Item =
  item_id :: int
  item_name :: js_string
  item_quantity :: js_number

text \<open>
  Modelled from the spec: the value a rejected call throws comes from \<^verbatim>\<open>app/db.ts\<close> and the
  engine under it, which are not among the sources; the specification's error taxonomy has a
  store that is unreachable, a write failure during insert and a read failure during fetch.
  The screen only logs the value.
\<close>

datatype db_error = StoreUnreachable | WriteFailure | ReadFailure

record 'db adapter =
  insertItem :: "'db \<Rightarrow> js_string \<Rightarrow> js_number \<Rightarrow> (db_error + unit) \<times> 'db"
  fetchItems :: "'db \<Rightarrow> (db_error + Item list) \<times> 'db"

section \<open>The form screen\<close>

text \<open>
  The component's state (\<^verbatim>\<open>useState\<close>: \<open>name\<close>, \<open>quantity\<close>, \<open>items\<close>), the database
  behind the handle \<^verbatim>\<open>db\<close>, and the effects the screen has had on the world outside, in
  the order they happened: an adapter call being issued, the awaited call settling
  (\<open>None\<close>: resolved, \<open>Some err\<close>: rejected with \<open>err\<close>), and a line written by
  \<^verbatim>\<open>console.log\<close>.
\<close>

datatype console_arg = Message string | Thrown db_error

datatype event =
    InsertIssued js_string js_number
  | InsertSettled "db_error option"
  | FetchIssued
  | FetchSettled "db_error option"
  | ConsoleLog console_arg

record 'db app =
  name :: js_string
  quantity :: js_string
  items :: "Item list"
  db :: 'db
  trace :: "event list"

definition rejection :: "db_error + 'a \<Rightarrow> db_error option" where
  "rejection r = (case r of Inl err \<Rightarrow> Some err | Inr v \<Rightarrow> None)"

definition console_log :: "console_arg \<Rightarrow> 'db app \<Rightarrow> 'db app" where
  "console_log a w = w\<lparr>trace := trace w @ [ConsoleLog a]\<rparr>"

text \<open>\<^verbatim>\<open>await fetchItems(db)\<close>: the call is issued, runs on the database, and settles.\<close>

definition await_fetchItems ::
  "'db adapter \<Rightarrow> 'db app \<Rightarrow> (db_error + Item list) \<times> 'db app" where
  "await_fetchItems A w =
     (case fetchItems A (db w) of
        (r, d) \<Rightarrow> (r, w\<lparr>db := d, trace := trace w @ [FetchIssued, FetchSettled (rejection r)]\<rparr>))"

text \<open>\<^verbatim>\<open>await insertItem(db, name, parsedQuantity)\<close>.\<close>

definition await_insertItem ::
  "'db adapter \<Rightarrow> js_string \<Rightarrow> js_number \<Rightarrow> 'db app \<Rightarrow> (db_error + unit) \<times> 'db app" where
  "await_insertItem A n q w =
     (case insertItem A (db w) n q of
        (r, d) \<Rightarrow>
          (r, w\<lparr>db := d, trace := trace w @ [InsertIssued n q, InsertSettled (rejection r)]\<rparr>))"

text \<open>
  \<^verbatim>\<open>loadItems\<close> (lines 62 to 70): the whole body is inside \<^verbatim>\<open>try\<close>, and the handler only
  logs, so the function never rejects: it returns the new state.
\<close>

definition loadItems :: "'db adapter \<Rightarrow> 'db app \<Rightarrow> 'db app" where
  "loadItems A w =
     (case await_fetchItems A w of
        (Inr value, w1) \<Rightarrow> w1\<lparr>items := value\<rparr>
      | (Inl err, w1) \<Rightarrow>
          console_log (Thrown err) (console_log (Message ''Failed to fetch items'') w1))"

text \<open>
  \<^verbatim>\<open>saveItem\<close> (lines 86 to 105). \<^verbatim>\<open>!name.trim()\<close> holds exactly when the trimmed name
  is the empty string. The untrimmed \<open>name\<close> is what is passed to \<^verbatim>\<open>insertItem\<close>. Since
  \<^verbatim>\<open>loadItems\<close> never rejects, the handler of \<^verbatim>\<open>saveItem\<close> runs only when the insert
  rejects.
\<close>

definition saveItem :: "'db adapter \<Rightarrow> 'db app \<Rightarrow> 'db app" where
  "saveItem A w =
     (if trim (name w) = [] then w
      else let parsedQuantity = parseInt (quantity w)
           in if Number_isNaN parsedQuantity then w
              else (case await_insertItem A (name w) parsedQuantity w of
                      (Inr u, w1) \<Rightarrow> (loadItems A w1)\<lparr>name := [], quantity := []\<rparr>
                    | (Inl err, w1) \<Rightarrow>
                        console_log (Thrown err)
                          (console_log (Message ''Failed to save item'') w1)))"

text \<open>
  The component when it is first rendered (\<^verbatim>\<open>useState('')\<close>, \<^verbatim>\<open>useState('')\<close>,
  \<^verbatim>\<open>useState<Item[]>([])\<close>) and its mount effect
  (\<^verbatim>\<open>useEffect(() => { loadItems(); }, [])\<close>, lines 43 to 45).
\<close>

definition App_initial :: "'db \<Rightarrow> 'db app" where
  "App_initial d = \<lparr>name = [], quantity = [], items = [], db = d, trace = []\<rparr>"

definition App_mount :: "'db adapter \<Rightarrow> 'db \<Rightarrow> 'db app" where
  "App_mount A d = loadItems A (App_initial d)"

text \<open>The effects an action had: what it added to the trace of the state it started in.\<close>

definition emitted :: "'db app \<Rightarrow> 'db app \<Rightarrow> event list" where
  "emitted w w' = drop (length (trace w)) (trace w')"

section \<open>The store behind the adapter\<close>

text \<open>
  Modelled from the spec: \<^verbatim>\<open>app/db.ts\<close> (\<^verbatim>\<open>insertItem\<close>, \<^verbatim>\<open>fetchItems\<close>) is not among the
  sources. The specification's storage adapter: one table of items; \<^emph>\<open>insert\<close> appends one
  item with an auto-assigned identifier and fails if the store rejects the write;
  \<^emph>\<open>fetchAll\<close> returns all items in insertion order, the empty sequence if there are none,
  and fails if the store is unreachable. Whether a call fails is decided outside the
  program, so the store carries the verdicts for the calls to come, one per call, in
  order (\<open>None\<close>: the call goes through; no verdict left: it goes through).
\<close>

record store =
  rows :: "Item list"
  faults :: "db_error option list"

text \<open>
  Modelled from the spec: a call fails when the store rejects the write or is unreachable,
  which is the verdict due for that call; the call uses it up.
\<close>

definition next_fault :: "store \<Rightarrow> db_error option \<times> store" where
  "next_fault s = (case faults s of [] \<Rightarrow> (None, s) | f # fs \<Rightarrow> (f, s\<lparr>faults := fs\<rparr>))"

text \<open>
  Modelled from the spec: the identifier is auto-assigned and unique; as the rowid of an
  embedded SQL table it is one more than the largest identifier in the table.
\<close>

definition fresh_id :: "Item list \<Rightarrow> int" where
  "fresh_id rs = 1 + foldl max 0 (map item_id rs)"

text \<open>Modelled from the spec: \<^emph>\<open>insert(name, quantity)\<close> of the storage adapter.\<close>

definition store_insert ::
  "store \<Rightarrow> js_string \<Rightarrow> js_number \<Rightarrow> (db_error + unit) \<times> store" where
  "store_insert s n q =
     (case next_fault s of
        (Some err, s1) \<Rightarrow> (Inl err, s1)
      | (None, s1) \<Rightarrow>
          (Inr (),
           s1\<lparr>rows := rows s1 @
                 [\<lparr>item_id = fresh_id (rows s1), item_name = n, item_quantity = q\<rparr>]\<rparr>))"

text \<open>Modelled from the spec: \<^emph>\<open>fetchAll()\<close> of the storage adapter.\<close>

definition store_fetchAll :: "store \<Rightarrow> (db_error + Item list) \<times> store" where
  "store_fetchAll s =
     (case next_fault s of
        (Some err, s1) \<Rightarrow> (Inl err, s1)
      | (None, s1) \<Rightarrow> (Inr (rows s1), s1))"

text \<open>
  Modelled from the spec: the two operations as the adapter that \<^verbatim>\<open>app/db.ts\<close> exports to
  the screen under the names \<^verbatim>\<open>insertItem\<close> and \<^verbatim>\<open>fetchItems\<close>.
\<close>

definition store_adapter :: "store adapter" where
  "store_adapter = \<lparr>insertItem = store_insert, fetchItems = store_fetchAll\<rparr>"

section \<open>What one action does\<close>

subsection \<open>\<^verbatim>\<open>loadItems\<close>\<close>

lemma loadItems_resolved:
  "fetchItems A (db w) = (Inr v, d) \<Longrightarrow>
   loadItems A w = w\<lparr>items := v, db := d, trace := trace w @ [FetchIssued, FetchSettled None]\<rparr>"
  by (simp add: loadItems_def await_fetchItems_def rejection_def)

lemma loadItems_rejected:
  "fetchItems A (db w) = (Inl err, d) \<Longrightarrow>
   loadItems A w = w\<lparr>db := d, trace := trace w @
     [FetchIssued, FetchSettled (Some err), ConsoleLog (Message ''Failed to fetch items''),
      ConsoleLog (Thrown err)]\<rparr>"
  by (simp add: loadItems_def await_fetchItems_def rejection_def console_log_def)

subsection \<open>\<^verbatim>\<open>saveItem\<close>: the five ways it can go\<close>

lemma saveItem_blank_name: "trim (name w) = [] \<Longrightarrow> saveItem A w = w"
  by (simp add: saveItem_def)

lemma saveItem_not_a_number: "Number_isNaN (parseInt (quantity w)) \<Longrightarrow> saveItem A w = w"
  by (simp add: saveItem_def)

lemma saveItem_insert_rejected:
  assumes "trim (name w) \<noteq> []" and "\<not> Number_isNaN (parseInt (quantity w))"
    and "insertItem A (db w) (name w) (parseInt (quantity w)) = (Inl err, d)"
  shows "saveItem A w = w\<lparr>db := d, trace := trace w @
     [InsertIssued (name w) (parseInt (quantity w)), InsertSettled (Some err),
      ConsoleLog (Message ''Failed to save item''), ConsoleLog (Thrown err)]\<rparr>"
  using assms by (simp add: saveItem_def await_insertItem_def rejection_def console_log_def)

lemma saveItem_fetch_rejected:
  assumes "trim (name w) \<noteq> []" and "\<not> Number_isNaN (parseInt (quantity w))"
    and "insertItem A (db w) (name w) (parseInt (quantity w)) = (Inr u, d)"
    and "fetchItems A d = (Inl err, d')"
  shows "saveItem A w = w\<lparr>name := [], quantity := [], db := d', trace := trace w @
     [InsertIssued (name w) (parseInt (quantity w)), InsertSettled None,
      FetchIssued, FetchSettled (Some err),
      ConsoleLog (Message ''Failed to fetch items''), ConsoleLog (Thrown err)]\<rparr>"
  using assms
  by (simp add: saveItem_def await_insertItem_def rejection_def loadItems_rejected)

lemma saveItem_resolved:
  assumes "trim (name w) \<noteq> []" and "\<not> Number_isNaN (parseInt (quantity w))"
    and "insertItem A (db w) (name w) (parseInt (quantity w)) = (Inr u, d)"
    and "fetchItems A d = (Inr v, d')"
  shows "saveItem A w = w\<lparr>name := [], quantity := [], items := v, db := d', trace := trace w @
     [InsertIssued (name w) (parseInt (quantity w)), InsertSettled None,
      FetchIssued, FetchSettled None]\<rparr>"
  using assms
  by (simp add: saveItem_def await_insertItem_def rejection_def loadItems_resolved)

text \<open>
  Every run of \<^verbatim>\<open>saveItem\<close> is one of the five: the state it ends in and the effects it
  had are those of the case.
\<close>

lemma saveItem_cases [case_names rejected insert_failed fetch_failed saved]:
  obtains
    "trim (name w) = [] \<or> Number_isNaN (parseInt (quantity w))"
    "saveItem A w = w" "emitted w (saveItem A w) = []"
  | err where
    "trim (name w) \<noteq> []" "\<not> Number_isNaN (parseInt (quantity w))"
    "name (saveItem A w) = name w" "quantity (saveItem A w) = quantity w"
    "items (saveItem A w) = items w"
    "emitted w (saveItem A w) =
       [InsertIssued (name w) (parseInt (quantity w)), InsertSettled (Some err),
        ConsoleLog (Message ''Failed to save item''), ConsoleLog (Thrown err)]"
  | err where
    "trim (name w) \<noteq> []" "\<not> Number_isNaN (parseInt (quantity w))"
    "name (saveItem A w) = []" "quantity (saveItem A w) = []"
    "items (saveItem A w) = items w"
    "emitted w (saveItem A w) =
       [InsertIssued (name w) (parseInt (quantity w)), InsertSettled None,
        FetchIssued, FetchSettled (Some err),
        ConsoleLog (Message ''Failed to fetch items''), ConsoleLog (Thrown err)]"
  | u d v d' where
    "trim (name w) \<noteq> []" "\<not> Number_isNaN (parseInt (quantity w))"
    "insertItem A (db w) (name w) (parseInt (quantity w)) = (Inr u, d)"
    "fetchItems A d = (Inr v, d')"
    "name (saveItem A w) = []" "quantity (saveItem A w) = []"
    "items (saveItem A w) = v" "db (saveItem A w) = d'"
    "emitted w (saveItem A w) =
       [InsertIssued (name w) (parseInt (quantity w)), InsertSettled None,
        FetchIssued, FetchSettled None]"
proof (cases "trim (name w) = [] \<or> Number_isNaN (parseInt (quantity w))")
  case True
  then have "saveItem A w = w"
    using saveItem_blank_name saveItem_not_a_number by blast
  with True show ?thesis
    using that(1) by (simp add: emitted_def)
next
  case False
  then have ok: "trim (name w) \<noteq> []" "\<not> Number_isNaN (parseInt (quantity w))"
    by simp_all
  obtain r d where ins: "insertItem A (db w) (name w) (parseInt (quantity w)) = (r, d)"
    by (cases "insertItem A (db w) (name w) (parseInt (quantity w))")
  show ?thesis
  proof (cases r)
    case (Inl err)
    with ins have "saveItem A w = w\<lparr>db := d, trace := trace w @
       [InsertIssued (name w) (parseInt (quantity w)), InsertSettled (Some err),
        ConsoleLog (Message ''Failed to save item''), ConsoleLog (Thrown err)]\<rparr>"
      using saveItem_insert_rejected [OF ok] by simp
    then show ?thesis
      using that(2) [of err] ok by (simp add: emitted_def)
  next
    case (Inr u)
    obtain r' d' where fet: "fetchItems A d = (r', d')"
      by (cases "fetchItems A d")
    show ?thesis
    proof (cases r')
      case (Inl err)
      with ins fet Inr have "saveItem A w = w\<lparr>name := [], quantity := [], db := d',
         trace := trace w @
           [InsertIssued (name w) (parseInt (quantity w)), InsertSettled None,
            FetchIssued, FetchSettled (Some err),
            ConsoleLog (Message ''Failed to fetch items''), ConsoleLog (Thrown err)]\<rparr>"
        using saveItem_fetch_rejected [OF ok] by simp
      then show ?thesis
        using that(3) [of err] ok by (simp add: emitted_def)
    next
      case inr: (Inr v)
      with ins fet Inr have "saveItem A w = w\<lparr>name := [], quantity := [], items := v,
         db := d', trace := trace w @
           [InsertIssued (name w) (parseInt (quantity w)), InsertSettled None,
            FetchIssued, FetchSettled None]\<rparr>"
        using saveItem_resolved [OF ok] by simp
      then show ?thesis
        using that(4) [of u d v d'] ok ins fet Inr inr by (simp add: emitted_def)
    qed
  qed
qed

text \<open>Whatever \<^verbatim>\<open>saveItem\<close> passes to \<^verbatim>\<open>insertItem\<close> has passed both validations.\<close>

lemma saveItem_inserts_validated:
  "InsertIssued n q \<in> set (emitted w (saveItem A w)) \<Longrightarrow> trim n \<noteq> [] \<and> \<not> Number_isNaN q"
  by (cases A w rule: saveItem_cases) auto

subsection \<open>\<^verbatim>\<open>saveItem\<close> in terms of what the adapter returns\<close>

text \<open>
  Once both validations pass, the database, the list and the effects of a save are those
  of calling \<^verbatim>\<open>insertItem\<close> on the database the save started with, with the name as it
  stands in the field and the parsed quantity, and then, if that resolved, of calling
  \<^verbatim>\<open>fetchItems\<close> on the database the insert left behind.
\<close>

lemma saveItem_db:
  assumes "trim (name w) \<noteq> []" and "\<not> Number_isNaN (parseInt (quantity w))"
  shows "db (saveItem A w) =
     (case insertItem A (db w) (name w) (parseInt (quantity w)) of
        (Inl err, d) \<Rightarrow> d
      | (Inr u, d) \<Rightarrow> snd (fetchItems A d))"
  using assms
  by (simp add: saveItem_def loadItems_def await_insertItem_def await_fetchItems_def
      console_log_def Let_def split: prod.splits sum.splits)

lemma saveItem_items:
  assumes "trim (name w) \<noteq> []" and "\<not> Number_isNaN (parseInt (quantity w))"
  shows "items (saveItem A w) =
     (case insertItem A (db w) (name w) (parseInt (quantity w)) of
        (Inl err, d) \<Rightarrow> items w
      | (Inr u, d) \<Rightarrow> (case fst (fetchItems A d) of Inl err \<Rightarrow> items w | Inr v \<Rightarrow> v))"
  using assms
  by (simp add: saveItem_def loadItems_def await_insertItem_def await_fetchItems_def
      console_log_def Let_def split: prod.splits sum.splits)

lemma saveItem_emitted:
  assumes "trim (name w) \<noteq> []" and "\<not> Number_isNaN (parseInt (quantity w))"
  shows "emitted w (saveItem A w) =
     (case insertItem A (db w) (name w) (parseInt (quantity w)) of
        (Inl err, d) \<Rightarrow>
          [InsertIssued (name w) (parseInt (quantity w)), InsertSettled (Some err),
           ConsoleLog (Message ''Failed to save item''), ConsoleLog (Thrown err)]
      | (Inr u, d) \<Rightarrow>
          [InsertIssued (name w) (parseInt (quantity w)), InsertSettled None,
           FetchIssued, FetchSettled (rejection (fst (fetchItems A d)))] @
          (case fst (fetchItems A d) of
             Inl err \<Rightarrow>
               [ConsoleLog (Message ''Failed to fetch items''), ConsoleLog (Thrown err)]
           | Inr v \<Rightarrow> []))"
  using assms
  by (simp add: saveItem_def loadItems_def await_insertItem_def await_fetchItems_def
      console_log_def rejection_def emitted_def Let_def split: prod.splits sum.splits)

section \<open>Facts about the built-ins\<close>

lemmas js_eval = js_str_def trim_def trim_start_def is_white_space_def is_digit_def
  math_int_def digit_value_def parseInt_def strip_sign_def numeric_prefix_def to_Number_def
  round_ties_even_def

lemmas store_eval = store_adapter_def store_insert_def store_fetchAll_def next_fault_def
  fresh_id_def

lemmas app_eval = saveItem_def loadItems_def await_insertItem_def await_fetchItems_def
  rejection_def console_log_def emitted_def App_mount_def App_initial_def Let_def

lemma to_Number_not_NaN: "\<not> Number_isNaN (to_Number negative m)"
  by (simp add: to_Number_def Let_def)

text \<open>\<^verbatim>\<open>parseInt\<close> gives \<^verbatim>\<open>NaN\<close> exactly when there is no digit to read.\<close>

lemma parseInt_NaN_iff: "Number_isNaN (parseInt s) \<longleftrightarrow> numeric_prefix s = []"
  by (simp add: parseInt_def Let_def to_Number_not_NaN)

lemma numeric_prefix_12abc: "numeric_prefix (js_str ''12abc'') \<noteq> []"
  by (simp add: js_eval)

lemma parseInt_12abc: "parseInt (js_str ''12abc'') = Finite 12"
  by (simp add: js_eval)

lemma parseInt_5: "parseInt (js_str ''5'') = Finite 5"
  by (simp add: js_eval)

subsection \<open>A digit string too long for a double\<close>

lemma digit_value_nine: "digit_value 0x39 = 9"
  by (simp add: digit_value_def)

lemma foldl_nines:
  "foldl (\<lambda>acc c. 10 * acc + digit_value c) a (replicate n 0x39) = a * 10 ^ n + (10 ^ n - 1)"
proof (induction n arbitrary: a)
  case 0
  then show ?case by simp
next
  case (Suc n)
  have "foldl (\<lambda>acc c. 10 * acc + digit_value c) a (replicate (Suc n) 0x39)
      = foldl (\<lambda>acc c. 10 * acc + digit_value c) (10 * a + 9) (replicate n 0x39)"
    by (simp add: digit_value_nine)
  also have "\<dots> = (10 * a + 9) * 10 ^ n + (10 ^ n - 1)"
    by (rule Suc.IH)
  also have "\<dots> = a * 10 ^ Suc n + (10 ^ Suc n - 1)"
  proof -
    have "(1::nat) \<le> 10 ^ n" by simp
    then show ?thesis by (simp add: algebra_simps)
  qed
  finally show ?case .
qed

lemma math_int_nines: "math_int (replicate n 0x39) = 10 ^ n - 1"
  by (simp add: math_int_def foldl_nines)

lemma numeric_prefix_nines: "numeric_prefix (replicate (Suc n) 0x39) = replicate (Suc n) 0x39"
  by (simp add: numeric_prefix_def trim_start_def strip_sign_def is_white_space_def is_digit_def
      takeWhile_replicate)

lemma bit_length_ge: "2 ^ k \<le> n \<Longrightarrow> k < bit_length n"
proof (induction k arbitrary: n)
  case 0
  then show ?case by (subst bit_length.simps) simp
next
  case (Suc k)
  then have "2 ^ k \<le> n div 2" by simp
  then have "k < bit_length (n div 2)" by (rule Suc.IH)
  moreover have "(0::nat) < 2 ^ Suc k" by simp
  with Suc.prems have "n \<noteq> 0" by linarith
  ultimately show ?case by (subst bit_length.simps) simp
qed

lemma bit_length_lower: "n \<noteq> 0 \<Longrightarrow> 2 ^ (bit_length n - 1) \<le> n"
proof (induction n rule: bit_length.induct)
  case (1 n)
  show ?case
  proof (cases "n div 2 = 0")
    case True
    with 1 have "n = Suc 0" by (cases n) auto
    then show ?thesis by (simp add: bit_length.simps [of "Suc 0"] bit_length.simps [of 0])
  next
    case False
    with 1 have "2 ^ (bit_length (n div 2) - 1) \<le> n div 2" by simp
    moreover have "0 < bit_length (n div 2)"
      using False by (subst bit_length.simps) simp
    ultimately have "2 ^ bit_length (n div 2) \<le> 2 * (n div 2)"
      by (cases "bit_length (n div 2)") simp_all
    also have "\<dots> \<le> n" by simp
    finally show ?thesis
      using 1(2) by (subst bit_length.simps) simp
  qed
qed

text \<open>A value of \<open>2 ^ 1024\<close> or more still is one after rounding: it becomes an infinity.\<close>

lemma round_ties_even_overflow:
  assumes "2 ^ 1024 \<le> m"
  shows "2 ^ 1024 \<le> round_ties_even m"
proof -
  define e where "e = bit_length m - 53"
  define q where "q = m div 2 ^ e"
  define top :: nat where "top = 2 ^ 1024"
  have big: "\<not> m < 2 ^ 53"
  proof -
    have "(2::nat) ^ 53 \<le> 2 ^ 1024" by (rule power_increasing) simp_all
    with assms show ?thesis by simp
  qed
  have len: "1024 < bit_length m" using assms by (rule bit_length_ge)
  have "m \<noteq> 0" using assms by auto
  then have "2 ^ (bit_length m - 1) \<le> m" by (rule bit_length_lower)
  moreover have "bit_length m - 1 = 52 + e" using len by (simp add: e_def)
  ultimately have "2 ^ 52 * 2 ^ e \<le> m" by (simp add: power_add)
  then have "2 ^ 52 \<le> q"
    by (simp add: q_def less_eq_div_iff_mult_less_eq)
  have "top \<le> 2 ^ (52 + e)"
    unfolding top_def using len by (intro power_increasing) (simp_all add: e_def)
  also have "\<dots> = 2 ^ 52 * 2 ^ e" by (simp only: power_add)
  also have "\<dots> \<le> q * 2 ^ e" using \<open>2 ^ 52 \<le> q\<close> by (rule mult_le_mono1)
  finally have low: "top \<le> q * 2 ^ e" .
  also have "q * 2 ^ e \<le> (q + 1) * 2 ^ e" by (rule mult_le_mono1) simp
  finally have up: "top \<le> (q + 1) * 2 ^ e" .
  have "round_ties_even m = q * 2 ^ e \<or> round_ties_even m = (q + 1) * 2 ^ e"
    using big by (simp add: round_ties_even_def Let_def e_def [symmetric] q_def [symmetric])
  with low up have "top \<le> round_ties_even m" by auto
  then show ?thesis by (simp only: top_def)
qed

lemma nines_overflow: "(2::nat) ^ 1024 \<le> 10 ^ 309 - 1"
  by simp

lemma js_str_nines: "js_str (replicate n CHR ''9'') = replicate n 0x39"
  by (simp add: js_str_def)

lemma parseInt_nines_overflow: "parseInt (js_str (replicate 309 CHR ''9'')) = PosInfinity"
proof -
  have unroll: "replicate 309 (0x39::16 word) = 0x39 # replicate 308 0x39"
    using replicate_Suc [of 308 "0x39::16 word"] by simp
  have np: "numeric_prefix (replicate 309 0x39) = replicate 309 0x39"
    using numeric_prefix_nines [of 308] by simp
  have "2 ^ 1024 \<le> round_ties_even (10 ^ 309 - 1)"
    using nines_overflow by (rule round_ties_even_overflow)
  then have inf: "to_Number False (10 ^ 309 - 1) = PosInfinity"
    by (simp only: to_Number_def Let_def if_True if_False)
  have ts: "trim_start (replicate 309 (0x39::16 word)) = replicate 309 0x39"
    by (simp add: trim_start_def is_white_space_def dropWhile_replicate)
  have pos: "(case replicate 309 (0x39::16 word) of [] \<Rightarrow> False | c # cs \<Rightarrow> c = 0x002D) = False"
    by (subst unroll) simp
  have nz: "(10::nat) ^ 309 - 1 \<noteq> 0" by simp
  have ne: "replicate 309 (0x39::16 word) \<noteq> []" by simp
  show ?thesis
    unfolding js_str_nines parseInt_def Let_def np math_int_nines ts pos
    using inf nz ne by (simp only: if_False)
qed

section \<open>Facts about the store\<close>

lemma store_insert_resolved:
  "store_insert s n q = (Inr u, d) \<Longrightarrow>
   rows d = rows s @ [\<lparr>item_id = fresh_id (rows s), item_name = n, item_quantity = q\<rparr>]"
  by (auto simp: store_insert_def next_fault_def split: list.splits option.splits)

lemma store_fetchAll_resolved: "store_fetchAll s = (Inr v, d) \<Longrightarrow> v = rows s"
  by (auto simp: store_fetchAll_def next_fault_def split: list.splits option.splits)

section \<open>The validations of \<^verbatim>\<open>saveItem\<close>\<close>

text \<open>
  C4: for every state in which the trimmed name is the empty string, \<^verbatim>\<open>saveItem\<close>
  attempts no insert (it has no effect at all: nothing is issued, the database is the one
  it started with) and the items list is unchanged.
\<close>

theorem saveItem_blank_name_no_insert:
  "trim (name w) = [] \<Longrightarrow>
   emitted w (saveItem A w) = [] \<and> db (saveItem A w) = db w \<and> items (saveItem A w) = items w"
  by (simp add: saveItem_blank_name emitted_def)

theorem saveItem_blank_name_no_insert_witness:
  "trim (js_str '' '') = [] \<and>
   emitted
     \<lparr>name = js_str '' '', quantity = js_str ''5'', items = [],
      db = \<lparr>rows = [], faults = []\<rparr>, trace = []\<rparr>
     (saveItem store_adapter
        \<lparr>name = js_str '' '', quantity = js_str ''5'', items = [],
         db = \<lparr>rows = [], faults = []\<rparr>, trace = []\<rparr>) = [] \<and>
   db (saveItem store_adapter
        \<lparr>name = js_str '' '', quantity = js_str ''5'', items = [],
         db = \<lparr>rows = [], faults = []\<rparr>, trace = []\<rparr>) = \<lparr>rows = [], faults = []\<rparr> \<and>
   items (saveItem store_adapter
        \<lparr>name = js_str '' '', quantity = js_str ''5'', items = [],
         db = \<lparr>rows = [], faults = []\<rparr>, trace = []\<rparr>) = []"
  using saveItem_blank_name_no_insert
    [of "\<lparr>name = js_str '' '', quantity = js_str ''5'', items = [],
          db = \<lparr>rows = [], faults = []\<rparr>, trace = []\<rparr>" store_adapter]
  by (simp add: js_eval)

text \<open>
  C5: for every state in which the quantity text does not parse as a base-10 integer
  (\<^verbatim>\<open>parseInt\<close> yields \<^verbatim>\<open>NaN\<close>), \<^verbatim>\<open>saveItem\<close> attempts no insert: nothing is issued and
  the database is the one it started with.
\<close>

theorem saveItem_not_a_number_no_insert:
  "Number_isNaN (parseInt (quantity w)) \<Longrightarrow>
   emitted w (saveItem A w) = [] \<and> db (saveItem A w) = db w"
  by (simp add: saveItem_not_a_number emitted_def)

theorem saveItem_not_a_number_no_insert_witness:
  "Number_isNaN (parseInt (js_str ''abc'')) \<and>
   emitted
     \<lparr>name = js_str ''Milk'', quantity = js_str ''abc'', items = [],
      db = \<lparr>rows = [], faults = []\<rparr>, trace = []\<rparr>
     (saveItem store_adapter
        \<lparr>name = js_str ''Milk'', quantity = js_str ''abc'', items = [],
         db = \<lparr>rows = [], faults = []\<rparr>, trace = []\<rparr>) = [] \<and>
   db (saveItem store_adapter
        \<lparr>name = js_str ''Milk'', quantity = js_str ''abc'', items = [],
         db = \<lparr>rows = [], faults = []\<rparr>, trace = []\<rparr>) = \<lparr>rows = [], faults = []\<rparr>"
  using saveItem_not_a_number_no_insert
    [of "\<lparr>name = js_str ''Milk'', quantity = js_str ''abc'', items = [],
          db = \<lparr>rows = [], faults = []\<rparr>, trace = []\<rparr>" store_adapter]
  by (simp add: js_eval)

text \<open>
  C1, as the code has it: with a name that is not blank, the quantity text \<^verbatim>\<open>12abc\<close> is
  accepted: \<^verbatim>\<open>insertItem\<close> is called with the name and the quantity 12 on the database
  the save started with (the database after the save is the one that call left behind, or,
  if it resolved, the one the fetch that follows left behind). No insert is attempted
  exactly when the quantity text has no numeric prefix (after leading white space and one
  optional sign it does not start with a decimal digit): then the save changes nothing at
  all, and otherwise \<^verbatim>\<open>insertItem\<close> is called with the name and the parsed quantity.
\<close>

theorem saveItem_numeric_prefix_accepted:
  assumes "trim (name w) \<noteq> []"
  shows
   "(quantity w = js_str ''12abc'' \<longrightarrow>
       db (saveItem A w) =
         (case insertItem A (db w) (name w) (Finite 12) of
            (Inl err, d) \<Rightarrow> d
          | (Inr u, d) \<Rightarrow> snd (fetchItems A d)) \<and>
       (\<exists>rest. emitted w (saveItem A w) = InsertIssued (name w) (Finite 12) # rest)) \<and>
    (numeric_prefix (quantity w) = [] \<longrightarrow> saveItem A w = w) \<and>
    (numeric_prefix (quantity w) \<noteq> [] \<longrightarrow>
       db (saveItem A w) =
         (case insertItem A (db w) (name w) (parseInt (quantity w)) of
            (Inl err, d) \<Rightarrow> d
          | (Inr u, d) \<Rightarrow> snd (fetchItems A d)) \<and>
       (\<exists>rest. emitted w (saveItem A w) =
          InsertIssued (name w) (parseInt (quantity w)) # rest))"
proof (intro conjI impI)
  assume "numeric_prefix (quantity w) = []"
  then show "saveItem A w = w"
    by (simp add: saveItem_not_a_number parseInt_NaN_iff)
next
  assume "numeric_prefix (quantity w) \<noteq> []"
  then have ok: "\<not> Number_isNaN (parseInt (quantity w))"
    by (simp add: parseInt_NaN_iff)
  show "db (saveItem A w) =
         (case insertItem A (db w) (name w) (parseInt (quantity w)) of
            (Inl err, d) \<Rightarrow> d
          | (Inr u, d) \<Rightarrow> snd (fetchItems A d))"
    using assms ok by (rule saveItem_db)
  show "\<exists>rest. emitted w (saveItem A w) =
          InsertIssued (name w) (parseInt (quantity w)) # rest"
    by (simp add: saveItem_emitted [OF assms ok] split: prod.splits sum.splits)
next
  assume q: "quantity w = js_str ''12abc''"
  then have ok: "\<not> Number_isNaN (parseInt (quantity w))"
    by (simp add: parseInt_12abc)
  show "db (saveItem A w) =
         (case insertItem A (db w) (name w) (Finite 12) of
            (Inl err, d) \<Rightarrow> d
          | (Inr u, d) \<Rightarrow> snd (fetchItems A d))"
    using saveItem_db [OF assms ok, of A] q by (simp add: parseInt_12abc)
  show "\<exists>rest. emitted w (saveItem A w) = InsertIssued (name w) (Finite 12) # rest"
    using q by (simp add: saveItem_emitted [OF assms ok] parseInt_12abc split: prod.splits sum.splits)
qed

theorem saveItem_numeric_prefix_accepted_witness:
  "trim (js_str ''Milk'') \<noteq> [] \<and>
   insertItem store_adapter \<lparr>rows = [], faults = []\<rparr> (js_str ''Milk'') (Finite 12) =
     (Inr (), \<lparr>rows = [\<lparr>item_id = 1, item_name = js_str ''Milk'', item_quantity = Finite 12\<rparr>],
               faults = []\<rparr>) \<and>
   db (saveItem store_adapter
        \<lparr>name = js_str ''Milk'', quantity = js_str ''12abc'', items = [],
         db = \<lparr>rows = [], faults = []\<rparr>, trace = []\<rparr>) =
     \<lparr>rows = [\<lparr>item_id = 1, item_name = js_str ''Milk'', item_quantity = Finite 12\<rparr>],
      faults = []\<rparr> \<and>
   (\<exists>rest. emitted
      \<lparr>name = js_str ''Milk'', quantity = js_str ''12abc'', items = [],
       db = \<lparr>rows = [], faults = []\<rparr>, trace = []\<rparr>
      (saveItem store_adapter
        \<lparr>name = js_str ''Milk'', quantity = js_str ''12abc'', items = [],
         db = \<lparr>rows = [], faults = []\<rparr>, trace = []\<rparr>)
      = InsertIssued (js_str ''Milk'') (Finite 12) # rest) \<and>
   numeric_prefix (js_str ''abc'') = [] \<and>
   saveItem store_adapter
        \<lparr>name = js_str ''Milk'', quantity = js_str ''abc'', items = [],
         db = \<lparr>rows = [], faults = []\<rparr>, trace = []\<rparr> =
        \<lparr>name = js_str ''Milk'', quantity = js_str ''abc'', items = [],
         db = \<lparr>rows = [], faults = []\<rparr>, trace = []\<rparr>"
proof -
  have nonblank: "trim (js_str ''Milk'') \<noteq> []"
    by (simp add: js_eval)
  have inserted: "insertItem store_adapter \<lparr>rows = [], faults = []\<rparr> (js_str ''Milk'') (Finite 12) =
     (Inr (), \<lparr>rows = [\<lparr>item_id = 1, item_name = js_str ''Milk'', item_quantity = Finite 12\<rparr>],
               faults = []\<rparr>)"
    by (simp add: store_eval)
  have fetched: "snd (fetchItems store_adapter
      \<lparr>rows = [\<lparr>item_id = 1, item_name = js_str ''Milk'', item_quantity = Finite 12\<rparr>],
       faults = []\<rparr>) =
      \<lparr>rows = [\<lparr>item_id = 1, item_name = js_str ''Milk'', item_quantity = Finite 12\<rparr>],
       faults = []\<rparr>"
    by (simp add: store_eval)
  have noprefix: "numeric_prefix (js_str ''abc'') = []"
    by (simp add: js_eval)
  from saveItem_numeric_prefix_accepted
      [of "\<lparr>name = js_str ''Milk'', quantity = js_str ''12abc'', items = [],
            db = \<lparr>rows = [], faults = []\<rparr>, trace = []\<rparr>" store_adapter]
    saveItem_numeric_prefix_accepted
      [of "\<lparr>name = js_str ''Milk'', quantity = js_str ''abc'', items = [],
            db = \<lparr>rows = [], faults = []\<rparr>, trace = []\<rparr>" store_adapter]
    nonblank inserted fetched noprefix
  show ?thesis by simp
qed

text \<open>
  The claim C1 as it was stated (a quantity of \<^verbatim>\<open>12abc\<close> is rejected and no insert is
  attempted) fails: on a store that accepts every call, the row is inserted with quantity 12.
\<close>

theorem saveItem_12abc_counterexample:
  "saveItem store_adapter
     \<lparr>name = js_str ''Milk'', quantity = js_str ''12abc'', items = [],
      db = \<lparr>rows = [], faults = []\<rparr>, trace = []\<rparr> =
     \<lparr>name = [], quantity = [],
      items = [\<lparr>item_id = 1, item_name = js_str ''Milk'', item_quantity = Finite 12\<rparr>],
      db = \<lparr>rows = [\<lparr>item_id = 1, item_name = js_str ''Milk'', item_quantity = Finite 12\<rparr>],
            faults = []\<rparr>,
      trace = [InsertIssued (js_str ''Milk'') (Finite 12), InsertSettled None,
               FetchIssued, FetchSettled None]\<rparr>"
  by (simp add: js_eval store_eval app_eval)

text \<open>
  C10: in every save that passes the validations and whose insert resolves, what
  \<^verbatim>\<open>insertItem\<close> is called with is the name exactly as it stands in the field (untrimmed)
  and the result of \<^verbatim>\<open>parseInt\<close> on the quantity text: the database after the save is
  the one that this call, and then the fetch, left behind. It is the first effect of the
  save, and no other insert is issued.
\<close>

theorem saveItem_insert_arguments:
  assumes "trim (name w) \<noteq> []" and "\<not> Number_isNaN (parseInt (quantity w))"
    and "insertItem A (db w) (name w) (parseInt (quantity w)) = (Inr u, d)"
  shows "db (saveItem A w) = snd (fetchItems A d) \<and>
    (\<exists>rest. emitted w (saveItem A w) =
        InsertIssued (name w) (parseInt (quantity w)) # InsertSettled None # rest
      \<and> (\<forall>n q. InsertIssued n q \<notin> set rest))"
  using assms(3)
  by (auto simp: saveItem_db [OF assms(1,2)] saveItem_emitted [OF assms(1,2)]
      split: sum.splits)

theorem saveItem_insert_arguments_witness:
  "trim (js_str ''  Tea '') \<noteq> [] \<and>
   \<not> Number_isNaN (parseInt (js_str ''3'')) \<and>
   insertItem store_adapter \<lparr>rows = [], faults = []\<rparr> (js_str ''  Tea '') (parseInt (js_str ''3'')) =
     (Inr (), \<lparr>rows = [\<lparr>item_id = 1, item_name = js_str ''  Tea '', item_quantity = Finite 3\<rparr>],
               faults = []\<rparr>) \<and>
   db (saveItem store_adapter
        \<lparr>name = js_str ''  Tea '', quantity = js_str ''3'', items = [],
         db = \<lparr>rows = [], faults = []\<rparr>, trace = []\<rparr>) =
     \<lparr>rows = [\<lparr>item_id = 1, item_name = js_str ''  Tea '', item_quantity = Finite 3\<rparr>],
      faults = []\<rparr> \<and>
   (\<exists>rest. emitted
      \<lparr>name = js_str ''  Tea '', quantity = js_str ''3'', items = [],
       db = \<lparr>rows = [], faults = []\<rparr>, trace = []\<rparr>
      (saveItem store_adapter
        \<lparr>name = js_str ''  Tea '', quantity = js_str ''3'', items = [],
         db = \<lparr>rows = [], faults = []\<rparr>, trace = []\<rparr>)
      = InsertIssued (js_str ''  Tea '') (Finite 3) # InsertSettled None # rest
      \<and> (\<forall>n q. InsertIssued n q \<notin> set rest))"
proof -
  have nonblank: "trim (js_str ''  Tea '') \<noteq> []"
    by (simp add: js_eval)
  have parsed: "parseInt (js_str ''3'') = Finite 3"
    by (simp add: js_eval)
  have inserted:
    "insertItem store_adapter \<lparr>rows = [], faults = []\<rparr> (js_str ''  Tea '') (Finite 3) =
     (Inr (), \<lparr>rows = [\<lparr>item_id = 1, item_name = js_str ''  Tea '', item_quantity = Finite 3\<rparr>],
               faults = []\<rparr>)"
    by (simp add: store_eval)
  have fetched: "snd (fetchItems store_adapter
      \<lparr>rows = [\<lparr>item_id = 1, item_name = js_str ''  Tea '', item_quantity = Finite 3\<rparr>],
       faults = []\<rparr>) =
      \<lparr>rows = [\<lparr>item_id = 1, item_name = js_str ''  Tea '', item_quantity = Finite 3\<rparr>],
       faults = []\<rparr>"
    by (simp add: store_eval)
  from saveItem_insert_arguments
      [of "\<lparr>name = js_str ''  Tea '', quantity = js_str ''3'', items = [],
            db = \<lparr>rows = [], faults = []\<rparr>, trace = []\<rparr>" store_adapter "()"
          "\<lparr>rows = [\<lparr>item_id = 1, item_name = js_str ''  Tea '', item_quantity = Finite 3\<rparr>],
            faults = []\<rparr>"]
    nonblank parsed inserted fetched
  show ?thesis by simp
qed

section \<open>Failures and ordering\<close>

text \<open>
  C7: within one save that passes the validations, the refreshing fetch is sequenced after
  the insert's completion. If the insert resolves, \<^verbatim>\<open>fetchItems\<close> is called, once, on the
  database the insert left behind, and the list shows what that call returned; the effects
  start with the insert being issued, the insert resolving, and only then the fetch. If the
  insert rejects, the database is the one the insert left behind and no fetch is issued.
\<close>

theorem saveItem_fetch_after_insert:
  assumes "trim (name w) \<noteq> []" and "\<not> Number_isNaN (parseInt (quantity w))"
  shows
   "(\<forall>u d. insertItem A (db w) (name w) (parseInt (quantity w)) = (Inr u, d) \<longrightarrow>
       db (saveItem A w) = snd (fetchItems A d) \<and>
       items (saveItem A w) =
         (case fst (fetchItems A d) of Inl err \<Rightarrow> items w | Inr v \<Rightarrow> v) \<and>
       take 4 (emitted w (saveItem A w)) =
         [InsertIssued (name w) (parseInt (quantity w)), InsertSettled None,
          FetchIssued, FetchSettled (rejection (fst (fetchItems A d)))] \<and>
       count_list (emitted w (saveItem A w)) FetchIssued = 1) \<and>
    (\<forall>err d. insertItem A (db w) (name w) (parseInt (quantity w)) = (Inl err, d) \<longrightarrow>
       db (saveItem A w) = d \<and> items (saveItem A w) = items w \<and>
       FetchIssued \<notin> set (emitted w (saveItem A w)))"
  by (auto simp: saveItem_db [OF assms] saveItem_items [OF assms] saveItem_emitted [OF assms]
      split: sum.splits)

theorem saveItem_fetch_after_insert_witness:
  "trim (js_str ''Milk'') \<noteq> [] \<and>
   \<not> Number_isNaN (parseInt (js_str ''2'')) \<and>
   insertItem store_adapter \<lparr>rows = [], faults = []\<rparr> (js_str ''Milk'') (parseInt (js_str ''2'')) =
     (Inr (), \<lparr>rows = [\<lparr>item_id = 1, item_name = js_str ''Milk'', item_quantity = Finite 2\<rparr>],
               faults = []\<rparr>) \<and>
   items (saveItem store_adapter
        \<lparr>name = js_str ''Milk'', quantity = js_str ''2'', items = [],
         db = \<lparr>rows = [], faults = []\<rparr>, trace = []\<rparr>) =
     [\<lparr>item_id = 1, item_name = js_str ''Milk'', item_quantity = Finite 2\<rparr>] \<and>
   take 4 (emitted
      \<lparr>name = js_str ''Milk'', quantity = js_str ''2'', items = [],
       db = \<lparr>rows = [], faults = []\<rparr>, trace = []\<rparr>
      (saveItem store_adapter
        \<lparr>name = js_str ''Milk'', quantity = js_str ''2'', items = [],
         db = \<lparr>rows = [], faults = []\<rparr>, trace = []\<rparr>)) =
     [InsertIssued (js_str ''Milk'') (Finite 2), InsertSettled None, FetchIssued,
      FetchSettled None] \<and>
   insertItem store_adapter \<lparr>rows = [], faults = [Some WriteFailure, Some ReadFailure]\<rparr>
       (js_str ''Milk'') (parseInt (js_str ''2'')) =
     (Inl WriteFailure, \<lparr>rows = [], faults = [Some ReadFailure]\<rparr>) \<and>
   db (saveItem store_adapter
        \<lparr>name = js_str ''Milk'', quantity = js_str ''2'', items = [],
         db = \<lparr>rows = [], faults = [Some WriteFailure, Some ReadFailure]\<rparr>, trace = []\<rparr>) =
     \<lparr>rows = [], faults = [Some ReadFailure]\<rparr>"
proof -
  have nonblank: "trim (js_str ''Milk'') \<noteq> []"
    by (simp add: js_eval)
  have parsed: "parseInt (js_str ''2'') = Finite 2"
    by (simp add: js_eval)
  have inserted:
    "insertItem store_adapter \<lparr>rows = [], faults = []\<rparr> (js_str ''Milk'') (Finite 2) =
     (Inr (), \<lparr>rows = [\<lparr>item_id = 1, item_name = js_str ''Milk'', item_quantity = Finite 2\<rparr>],
               faults = []\<rparr>)"
    by (simp add: store_eval)
  have fetched: "fetchItems store_adapter
      \<lparr>rows = [\<lparr>item_id = 1, item_name = js_str ''Milk'', item_quantity = Finite 2\<rparr>],
       faults = []\<rparr> =
      (Inr [\<lparr>item_id = 1, item_name = js_str ''Milk'', item_quantity = Finite 2\<rparr>],
       \<lparr>rows = [\<lparr>item_id = 1, item_name = js_str ''Milk'', item_quantity = Finite 2\<rparr>],
        faults = []\<rparr>)"
    by (simp add: store_eval)
  have rejected:
    "insertItem store_adapter \<lparr>rows = [], faults = [Some WriteFailure, Some ReadFailure]\<rparr>
       (js_str ''Milk'') (Finite 2) =
     (Inl WriteFailure, \<lparr>rows = [], faults = [Some ReadFailure]\<rparr>)"
    by (simp add: store_eval)
  from saveItem_fetch_after_insert
      [of "\<lparr>name = js_str ''Milk'', quantity = js_str ''2'', items = [],
            db = \<lparr>rows = [], faults = []\<rparr>, trace = []\<rparr>" store_adapter]
    saveItem_fetch_after_insert
      [of "\<lparr>name = js_str ''Milk'', quantity = js_str ''2'', items = [],
            db = \<lparr>rows = [], faults = [Some WriteFailure, Some ReadFailure]\<rparr>, trace = []\<rparr>"
          store_adapter]
    nonblank parsed inserted fetched rejected
  show ?thesis by (simp add: rejection_def)
qed

text \<open>
  C2, as the code has it: in every save whose insert fails, the name field, the quantity
  field and the items list keep their values. In every save whose insert resolves and whose
  fetch then fails, the items list keeps its previous contents, and both fields are cleared
  to the empty string: \<^verbatim>\<open>loadItems\<close> handles the failure of the fetch itself, so
  \<^verbatim>\<open>saveItem\<close> goes on to \<^verbatim>\<open>setName('')\<close> and \<^verbatim>\<open>setQuantity('')\<close>.
\<close>

theorem saveItem_failure_ui_state:
  "(InsertSettled (Some err) \<in> set (emitted w (saveItem A w)) \<longrightarrow>
      name (saveItem A w) = name w \<and> quantity (saveItem A w) = quantity w \<and>
      items (saveItem A w) = items w) \<and>
   (FetchSettled (Some err) \<in> set (emitted w (saveItem A w)) \<longrightarrow>
      name (saveItem A w) = [] \<and> quantity (saveItem A w) = [] \<and>
      items (saveItem A w) = items w)"
  by (cases A w rule: saveItem_cases) auto

theorem saveItem_failure_ui_state_witness:
  "InsertSettled (Some WriteFailure) \<in> set (emitted
      \<lparr>name = js_str ''Milk'', quantity = js_str ''2'', items = [],
       db = \<lparr>rows = [], faults = [Some WriteFailure]\<rparr>, trace = []\<rparr>
      (saveItem store_adapter
        \<lparr>name = js_str ''Milk'', quantity = js_str ''2'', items = [],
         db = \<lparr>rows = [], faults = [Some WriteFailure]\<rparr>, trace = []\<rparr>)) \<and>
   name (saveItem store_adapter
        \<lparr>name = js_str ''Milk'', quantity = js_str ''2'', items = [],
         db = \<lparr>rows = [], faults = [Some WriteFailure]\<rparr>, trace = []\<rparr>) = js_str ''Milk'' \<and>
   quantity (saveItem store_adapter
        \<lparr>name = js_str ''Milk'', quantity = js_str ''2'', items = [],
         db = \<lparr>rows = [], faults = [Some WriteFailure]\<rparr>, trace = []\<rparr>) = js_str ''2'' \<and>
   FetchSettled (Some ReadFailure) \<in> set (emitted
      \<lparr>name = js_str ''Milk'', quantity = js_str ''2'', items = [],
       db = \<lparr>rows = [], faults = [None, Some ReadFailure]\<rparr>, trace = []\<rparr>
      (saveItem store_adapter
        \<lparr>name = js_str ''Milk'', quantity = js_str ''2'', items = [],
         db = \<lparr>rows = [], faults = [None, Some ReadFailure]\<rparr>, trace = []\<rparr>)) \<and>
   name (saveItem store_adapter
        \<lparr>name = js_str ''Milk'', quantity = js_str ''2'', items = [],
         db = \<lparr>rows = [], faults = [None, Some ReadFailure]\<rparr>, trace = []\<rparr>) = [] \<and>
   items (saveItem store_adapter
        \<lparr>name = js_str ''Milk'', quantity = js_str ''2'', items = [],
         db = \<lparr>rows = [], faults = [None, Some ReadFailure]\<rparr>, trace = []\<rparr>) = []"
  using
    saveItem_failure_ui_state
      [of WriteFailure
          "\<lparr>name = js_str ''Milk'', quantity = js_str ''2'', items = [],
            db = \<lparr>rows = [], faults = [Some WriteFailure]\<rparr>, trace = []\<rparr>" store_adapter]
    saveItem_failure_ui_state
      [of ReadFailure
          "\<lparr>name = js_str ''Milk'', quantity = js_str ''2'', items = [],
            db = \<lparr>rows = [], faults = [None, Some ReadFailure]\<rparr>, trace = []\<rparr>" store_adapter]
  by (simp add: js_eval store_eval app_eval)

text \<open>
  The claim C2 as it was stated (the fields retain their values when the fetch fails) fails:
  the insert goes through, the fetch is rejected, and the save ends with both fields empty
  although \<^verbatim>\<open>Milk\<close> and \<^verbatim>\<open>2\<close> had been typed.
\<close>

theorem saveItem_fetch_failure_counterexample:
  "saveItem store_adapter
     \<lparr>name = js_str ''Milk'', quantity = js_str ''2'', items = [],
      db = \<lparr>rows = [], faults = [None, Some ReadFailure]\<rparr>, trace = []\<rparr> =
     \<lparr>name = [], quantity = [], items = [],
      db = \<lparr>rows = [\<lparr>item_id = 1, item_name = js_str ''Milk'', item_quantity = Finite 2\<rparr>],
            faults = []\<rparr>,
      trace = [InsertIssued (js_str ''Milk'') (Finite 2), InsertSettled None,
               FetchIssued, FetchSettled (Some ReadFailure),
               ConsoleLog (Message ''Failed to fetch items''),
               ConsoleLog (Thrown ReadFailure)]\<rparr>
   \<and> js_str ''Milk'' \<noteq> [] \<and> js_str ''2'' \<noteq> []"
  by (simp add: js_eval store_eval app_eval)

text \<open>
  C8: on mount the fetch is issued exactly once; if it fails, the message and the error are
  logged and the displayed list is left empty, its initial value.
\<close>

theorem App_mount_fetches_once:
  "count_list (trace (App_mount A d)) FetchIssued = 1 \<and>
   (\<forall>err d'. fetchItems A d = (Inl err, d') \<longrightarrow>
      items (App_mount A d) = [] \<and>
      trace (App_mount A d) =
        [FetchIssued, FetchSettled (Some err),
         ConsoleLog (Message ''Failed to fetch items''), ConsoleLog (Thrown err)])"
proof -
  obtain r d' where fet: "fetchItems A d = (r, d')"
    by (cases "fetchItems A d")
  show ?thesis
  proof (cases r)
    case (Inl err)
    with fet show ?thesis
      by (simp add: App_mount_def App_initial_def loadItems_rejected)
  next
    case (Inr v)
    with fet show ?thesis
      by (simp add: App_mount_def App_initial_def loadItems_resolved)
  qed
qed

theorem App_mount_fetches_once_witness:
  "fetchItems store_adapter \<lparr>rows = [], faults = [Some StoreUnreachable]\<rparr>
     = (Inl StoreUnreachable, \<lparr>rows = [], faults = []\<rparr>) \<and>
   count_list (trace (App_mount store_adapter \<lparr>rows = [], faults = [Some StoreUnreachable]\<rparr>))
     FetchIssued = 1 \<and>
   items (App_mount store_adapter \<lparr>rows = [], faults = [Some StoreUnreachable]\<rparr>) = [] \<and>
   trace (App_mount store_adapter \<lparr>rows = [], faults = [Some StoreUnreachable]\<rparr>) =
     [FetchIssued, FetchSettled (Some StoreUnreachable),
      ConsoleLog (Message ''Failed to fetch items''), ConsoleLog (Thrown StoreUnreachable)]"
proof -
  have rejected: "fetchItems store_adapter \<lparr>rows = [], faults = [Some StoreUnreachable]\<rparr>
      = (Inl StoreUnreachable, \<lparr>rows = [], faults = []\<rparr>)"
    by (simp add: store_eval)
  with App_mount_fetches_once
    [of store_adapter "\<lparr>rows = [], faults = [Some StoreUnreachable]\<rparr>"]
  show ?thesis by blast
qed

section \<open>Saving through the store\<close>

text \<open>
  C6: after a successful save (the insert and the fetch both resolve) with the name
  \<^verbatim>\<open>Apples\<close> and the quantity \<^verbatim>\<open>5\<close>, the displayed list contains an item with name
  \<^verbatim>\<open>Apples\<close> and quantity 5, and both input fields are the empty string.
\<close>

theorem saveItem_Apples_5:
  assumes "name w = js_str ''Apples''" and "quantity w = js_str ''5''"
    and "InsertSettled None \<in> set (emitted w (saveItem store_adapter w))"
    and "FetchSettled None \<in> set (emitted w (saveItem store_adapter w))"
  shows "(\<exists>it \<in> set (items (saveItem store_adapter w)).
            item_name it = js_str ''Apples'' \<and> item_quantity it = Finite 5) \<and>
         name (saveItem store_adapter w) = [] \<and> quantity (saveItem store_adapter w) = []"
proof (cases store_adapter w rule: saveItem_cases)
  case rejected
  with assms(3) show ?thesis by simp
next
  case (insert_failed err)
  with assms(3) show ?thesis by simp
next
  case (fetch_failed err)
  with assms(4) show ?thesis by simp
next
  case (saved u d v d')
  from saved(3) have "rows d = rows (db w) @
      [\<lparr>item_id = fresh_id (rows (db w)), item_name = name w,
        item_quantity = parseInt (quantity w)\<rparr>]"
    by (simp add: store_adapter_def store_insert_resolved)
  moreover from saved(4) have "v = rows d"
    by (simp add: store_adapter_def store_fetchAll_resolved)
  ultimately have "\<lparr>item_id = fresh_id (rows (db w)), item_name = js_str ''Apples'',
      item_quantity = Finite 5\<rparr> \<in> set (items (saveItem store_adapter w))"
    using saved(7) assms(1,2) by (simp add: parseInt_5)
  then have "\<exists>it \<in> set (items (saveItem store_adapter w)).
            item_name it = js_str ''Apples'' \<and> item_quantity it = Finite 5"
    by (rule bexI [rotated]) simp
  with saved(5,6) show ?thesis by simp
qed

theorem saveItem_Apples_5_witness:
  "InsertSettled None \<in> set (emitted
      \<lparr>name = js_str ''Apples'', quantity = js_str ''5'', items = [],
       db = \<lparr>rows = [], faults = []\<rparr>, trace = []\<rparr>
      (saveItem store_adapter
        \<lparr>name = js_str ''Apples'', quantity = js_str ''5'', items = [],
         db = \<lparr>rows = [], faults = []\<rparr>, trace = []\<rparr>)) \<and>
   FetchSettled None \<in> set (emitted
      \<lparr>name = js_str ''Apples'', quantity = js_str ''5'', items = [],
       db = \<lparr>rows = [], faults = []\<rparr>, trace = []\<rparr>
      (saveItem store_adapter
        \<lparr>name = js_str ''Apples'', quantity = js_str ''5'', items = [],
         db = \<lparr>rows = [], faults = []\<rparr>, trace = []\<rparr>)) \<and>
   (\<exists>it \<in> set (items (saveItem store_adapter
        \<lparr>name = js_str ''Apples'', quantity = js_str ''5'', items = [],
         db = \<lparr>rows = [], faults = []\<rparr>, trace = []\<rparr>)).
      item_name it = js_str ''Apples'' \<and> item_quantity it = Finite 5) \<and>
   name (saveItem store_adapter
        \<lparr>name = js_str ''Apples'', quantity = js_str ''5'', items = [],
         db = \<lparr>rows = [], faults = []\<rparr>, trace = []\<rparr>) = [] \<and>
   quantity (saveItem store_adapter
        \<lparr>name = js_str ''Apples'', quantity = js_str ''5'', items = [],
         db = \<lparr>rows = [], faults = []\<rparr>, trace = []\<rparr>) = []"
proof -
  have issued: "InsertSettled None \<in> set (emitted
      \<lparr>name = js_str ''Apples'', quantity = js_str ''5'', items = [],
       db = \<lparr>rows = [], faults = []\<rparr>, trace = []\<rparr>
      (saveItem store_adapter
        \<lparr>name = js_str ''Apples'', quantity = js_str ''5'', items = [],
         db = \<lparr>rows = [], faults = []\<rparr>, trace = []\<rparr>))"
    and fetched: "FetchSettled None \<in> set (emitted
      \<lparr>name = js_str ''Apples'', quantity = js_str ''5'', items = [],
       db = \<lparr>rows = [], faults = []\<rparr>, trace = []\<rparr>
      (saveItem store_adapter
        \<lparr>name = js_str ''Apples'', quantity = js_str ''5'', items = [],
         db = \<lparr>rows = [], faults = []\<rparr>, trace = []\<rparr>))"
    by (simp_all add: js_eval store_eval app_eval)
  from saveItem_Apples_5 [OF _ _ issued fetched] issued fetched
  show ?thesis by simp
qed

text \<open>
  C9: \<^emph>\<open>fetchAll\<close> on a store that holds no rows, when the store is reachable (no fault is
  due for the call), returns the empty sequence and not an error.
\<close>

theorem store_fetchAll_empty:
  "rows s = [] \<Longrightarrow> fst (next_fault s) = None \<Longrightarrow> fst (store_fetchAll s) = Inr []"
  by (auto simp: store_fetchAll_def next_fault_def split: list.splits)

theorem store_fetchAll_empty_witness:
  "rows \<lparr>rows = [], faults = []\<rparr> = [] \<and>
   fst (next_fault \<lparr>rows = [], faults = []\<rparr>) = None \<and>
   fst (store_fetchAll \<lparr>rows = [], faults = []\<rparr>) = Inr []"
  using store_fetchAll_empty [of "\<lparr>rows = [], faults = []\<rparr>"]
  by (simp add: next_fault_def)

section \<open>What is persisted\<close>

text \<open>
  C3 asks that every persisted item has a quantity that is an integer. A quantity text of
  309 nines has a numeric prefix, so \<^verbatim>\<open>parseInt\<close> does not give \<^verbatim>\<open>NaN\<close>; its value is
  beyond the doubles, so \<^verbatim>\<open>parseInt\<close> gives \<^verbatim>\<open>Infinity\<close>, which \<^verbatim>\<open>Number.isNaN\<close> lets
  through: the row is inserted with a quantity that is not an integer.
\<close>

theorem saveItem_persists_infinite_quantity:
  "saveItem store_adapter
     \<lparr>name = js_str ''x'', quantity = js_str (replicate 309 CHR ''9''), items = [],
      db = \<lparr>rows = [], faults = []\<rparr>, trace = []\<rparr> =
     \<lparr>name = [], quantity = [],
      items = [\<lparr>item_id = 1, item_name = js_str ''x'', item_quantity = PosInfinity\<rparr>],
      db = \<lparr>rows = [\<lparr>item_id = 1, item_name = js_str ''x'', item_quantity = PosInfinity\<rparr>],
            faults = []\<rparr>,
      trace = [InsertIssued (js_str ''x'') PosInfinity, InsertSettled None,
               FetchIssued, FetchSettled None]\<rparr>
   \<and> Number_isInteger PosInfinity = False"
proof -
  have "trim (js_str ''x'') \<noteq> []"
    by (simp add: js_eval)
  then show ?thesis
    by (simp add: app_eval store_eval parseInt_nines_overflow)
qed

end
